theory Spec2Isabelle
  imports Main "HOL-Library.Word"
begin

unbundle bit_operations_syntax

section \<open>Data model of the puller (src/model/puller.go)\<close>

text \<open>
  Go's \<open>int\<close> is modelled as a 64-bit word read in two's complement (\<open>sint\<close>), \<open>uint\<close>,
  \<open>uint64\<close> and \<open>uint32\<close> as unsigned words, \<open>int64\<close> offsets and Unix times as \<open>int\<close>
  (only compared and stored, never added to).
\<close>

type_synonym go_int = "64 word"
type_synonym path = string
type_synonym fd = nat

datatype error = ErrNotExist | ErrInvalid | ErrIO | errNoNode | ErrRequest

text \<open>The fields of \<open>scanner.Block\<close> and \<open>scanner.File\<close> that the puller reads.\<close>

record Block =
  Offset :: int
  Size :: "32 word"
  Hash :: "8 word list"

record File =
  Name :: string
  Flags :: "32 word"
  Modified :: int
  Blocks :: "Block list"

text \<open>The fields of \<open>bqBlock\<close> (block queue item) that the puller reads.\<close>

record bqBlock =
  bq_file :: File
  bq_block :: Block
  bq_copy :: "Block list"
  bq_last :: bool

record requestResult =
  res_node :: string
  res_file :: File
  res_filepath :: string
  res_offset :: int
  res_data :: "8 word list"
  res_err :: "error option"

record openFile =
  of_filepath :: string
  of_temp :: string
  of_availability :: "64 word"
  of_file :: "fd option"
  of_err :: "error option"
  of_outstanding :: go_int
  of_done :: bool

text \<open>The zero value Go yields when a map has no entry for the key.\<close>

definition zeroOpenFile :: openFile where
  "zeroOpenFile = \<lparr>of_filepath = [], of_temp = [], of_availability = 0, of_file = None,
     of_err = None, of_outstanding = 0, of_done = False\<rparr>"

type_synonym activityMap = "string \<rightharpoonup> go_int"

text \<open>Reading \<open>m[node]\<close>: the zero value when the key is absent.\<close>

definition usageOf :: "activityMap \<Rightarrow> string \<Rightarrow> go_int" where
  "usageOf m node = (case m node of None \<Rightarrow> 0 | Some v \<Rightarrow> v)"

text \<open>
  The connection map \<open>cid.Map\<close> is not part of the source file: its \<open>Names()\<close>, \<open>Get\<close>
  and the package constant \<open>cid.LocalID\<close> are parameters.
\<close>

record cid_Map =
  LocalID :: "64 word"
  Names :: "string list"
  Get :: "string \<Rightarrow> 64 word"

section \<open>Activity map\<close>

text \<open>
  The body of the \<open>for _, node := range cm.Names()\<close> loop of \<open>leastBusyNode\<close>, with the
  loop variables \<open>low\<close> and \<open>selected\<close> threaded through. \<open>1<<id\<close> is a \<open>uint64\<close> shift:
  it is zero for \<open>id \<ge> 64\<close>, as \<open>push_bit\<close> on a 64-bit word is.
\<close>

fun leastBusyLoop ::
  "activityMap \<Rightarrow> 64 word \<Rightarrow> cid_Map \<Rightarrow> string list \<Rightarrow> go_int \<times> string \<Rightarrow> go_int \<times> string" where
  "leastBusyLoop m availability cm [] (low, selected) = (low, selected)"
| "leastBusyLoop m availability cm (node # rest) (low, selected) =
     (let id = Get cm node in
      if id = LocalID cm then leastBusyLoop m availability cm rest (low, selected)
      else
        let usage = usageOf m node in
        if availability AND push_bit (unat id) 1 \<noteq> 0 \<and> usage <s low
        then leastBusyLoop m availability cm rest (usage, node)
        else leastBusyLoop m availability cm rest (low, selected))"

text \<open>\<open>leastBusyNode\<close> returns the selection and the activity map after \<open>m[selected]++\<close>.\<close>

definition leastBusyNode :: "activityMap \<Rightarrow> 64 word \<Rightarrow> cid_Map \<Rightarrow> string \<times> activityMap" where
  "leastBusyNode m availability cm =
     (let (low, selected) = leastBusyLoop m availability cm (Names cm) (2147483647, []) in
      (selected, m(selected \<mapsto> usageOf m selected + 1)))"

definition decrease :: "activityMap \<Rightarrow> string \<Rightarrow> activityMap" where
  "decrease m node = m(node \<mapsto> usageOf m node - 1)"

text \<open>The peers \<open>leastBusyNode\<close> chooses among: not the local one, availability bit set.\<close>

definition eligible :: "cid_Map \<Rightarrow> 64 word \<Rightarrow> string \<Rightarrow> bool" where
  "eligible c availability node =
     (Get c node \<noteq> LocalID c \<and> availability AND push_bit (unat (Get c node)) 1 \<noteq> 0)"

section \<open>The world outside the puller: file system, handles and the call trace\<close>

text \<open>
  The operating system, the versioner and the model are not part of the source file. They
  are modelled by a small world: a file system keyed by full path name (the strings the
  code passes to \<open>os\<close>), the table of open handles, a clock, and the trace of every call the
  puller makes, in order. Any call may also be refused by the environment (permissions,
  a full disk): \<open>fails w i e\<close> says that call \<open>e\<close>, made as the \<open>i\<close>-th call of the trace, is
  refused with an I/O error.
\<close>

record fnode =
  isDir :: bool
  contents :: "8 word list"
  modTime :: int
  perm :: "32 word"
  hidden :: bool

datatype event =
    EvStat path
  | EvMkdirAll path "32 word"
  | EvCreate path
  | EvOpen path
  | EvClose "fd option"
  | EvReadAt "fd option" nat int
  | EvWriteAt "fd option" "8 word list" int
  | EvRemove path
  | EvRename path path
  | EvChmod path "32 word"
  | EvChtimes path int
  | EvHideFile path
  | EvShowFile path
  | EvArchive path
  | EvBlocks "fd option"
  | EvUpdateLocal File
  | EvRequestGlobal string string int "32 word"
  | EvCloseFile string

record world =
  fs :: "path \<rightharpoonup> fnode"
  handles :: "fd \<rightharpoonup> path"
  nextfd :: fd
  now :: int
  trace :: "event list"
  fails :: "nat \<Rightarrow> event \<Rightarrow> bool"

text \<open>Go's octal literals: \<open>0777 = 511\<close> and \<open>0666 = 438\<close>; \<open>os.ModePerm = 0777\<close>.\<close>

definition emit :: "event \<Rightarrow> world \<Rightarrow> world" where
  "emit e w = w\<lparr>trace := trace w @ [e]\<rparr>"

definition refused :: "event \<Rightarrow> world \<Rightarrow> bool" where
  "refused e w = fails w (length (trace w)) e"

definition os_Stat :: "path \<Rightarrow> world \<Rightarrow> error option \<times> world" where
  "os_Stat p w =
     (if refused (EvStat p) w then (Some ErrIO, emit (EvStat p) w)
      else case fs w p of
        None \<Rightarrow> (Some ErrNotExist, emit (EvStat p) w)
      | Some nd \<Rightarrow> (None, emit (EvStat p) w))"

definition os_MkdirAll :: "path \<Rightarrow> 32 word \<Rightarrow> world \<Rightarrow> error option \<times> world" where
  "os_MkdirAll p m w =
     (if refused (EvMkdirAll p m) w then (Some ErrIO, emit (EvMkdirAll p m) w)
      else case fs w p of
        Some nd \<Rightarrow> (if isDir nd then None else Some ErrIO, emit (EvMkdirAll p m) w)
      | None \<Rightarrow>
          (None, emit (EvMkdirAll p m)
             (w\<lparr>fs := (fs w)(p \<mapsto> \<lparr>isDir = True, contents = [], modTime = now w,
                                   perm = m AND 511, hidden = False\<rparr>)\<rparr>)))"

text \<open>\<open>os.Create\<close> and \<open>os.Open\<close> return a handle and an error; the handle is nil on error.\<close>

definition os_Create :: "path \<Rightarrow> world \<Rightarrow> fd option \<times> error option \<times> world" where
  "os_Create p w =
     (if refused (EvCreate p) w then (None, Some ErrIO, emit (EvCreate p) w)
      else if (case fs w p of None \<Rightarrow> False | Some nd \<Rightarrow> isDir nd)
      then (None, Some ErrIO, emit (EvCreate p) w)
      else
        (Some (nextfd w), None,
         emit (EvCreate p)
           (w\<lparr>fs := (fs w)(p \<mapsto> \<lparr>isDir = False, contents = [], modTime = now w,
                                 perm = 438, hidden = False\<rparr>),
              handles := (handles w)(nextfd w \<mapsto> p),
              nextfd := Suc (nextfd w)\<rparr>)))"

definition os_Open :: "path \<Rightarrow> world \<Rightarrow> fd option \<times> error option \<times> world" where
  "os_Open p w =
     (if refused (EvOpen p) w then (None, Some ErrIO, emit (EvOpen p) w)
      else case fs w p of
        None \<Rightarrow> (None, Some ErrNotExist, emit (EvOpen p) w)
      | Some nd \<Rightarrow>
          (Some (nextfd w), None,
           emit (EvOpen p) (w\<lparr>handles := (handles w)(nextfd w \<mapsto> p), nextfd := Suc (nextfd w)\<rparr>)))"

text \<open>Methods of \<open>*os.File\<close> return an error on a nil or closed handle; they do not panic.\<close>

definition file_Close :: "fd option \<Rightarrow> world \<Rightarrow> error option \<times> world" where
  "file_Close h w =
     (case h of
        None \<Rightarrow> (Some ErrInvalid, emit (EvClose h) w)
      | Some d \<Rightarrow>
          (case handles w d of
             None \<Rightarrow> (Some ErrInvalid, emit (EvClose h) w)
           | Some p \<Rightarrow> (None, emit (EvClose h) (w\<lparr>handles := (handles w)(d := None)\<rparr>))))"

text \<open>Writing \<open>data\<close> at byte \<open>off\<close>: the file is padded with zero bytes up to \<open>off\<close>.\<close>

definition writeBytes :: "8 word list \<Rightarrow> nat \<Rightarrow> 8 word list \<Rightarrow> 8 word list" where
  "writeBytes old off data =
     take off (old @ replicate (off - length old) 0) @ data @ drop (off + length data) old"

definition file_WriteAt :: "fd option \<Rightarrow> 8 word list \<Rightarrow> int \<Rightarrow> world \<Rightarrow> error option \<times> world" where
  "file_WriteAt h data off w =
     (case h of
        None \<Rightarrow> (Some ErrInvalid, emit (EvWriteAt h data off) w)
      | Some d \<Rightarrow>
          (if refused (EvWriteAt h data off) w then (Some ErrIO, emit (EvWriteAt h data off) w)
           else case handles w d of
             None \<Rightarrow> (Some ErrInvalid, emit (EvWriteAt h data off) w)
           | Some p \<Rightarrow>
               (if off < 0 then (Some ErrInvalid, emit (EvWriteAt h data off) w)
                else case fs w p of
                  None \<Rightarrow> (Some ErrIO, emit (EvWriteAt h data off) w)
                | Some nd \<Rightarrow>
                    (if isDir nd then (Some ErrIO, emit (EvWriteAt h data off) w)
                     else (None, emit (EvWriteAt h data off)
                       (w\<lparr>fs := (fs w)(p \<mapsto> nd\<lparr>contents := writeBytes (contents nd) (nat off) data,
                                                 modTime := now w\<rparr>)\<rparr>))))))"

text \<open>\<open>ReadAt\<close> into a buffer of \<open>n\<close> bytes: an error (EOF) when fewer bytes are there.\<close>

definition file_ReadAt :: "fd option \<Rightarrow> nat \<Rightarrow> int \<Rightarrow> world \<Rightarrow> 8 word list \<times> error option \<times> world" where
  "file_ReadAt h n off w =
     (case h of
        None \<Rightarrow> (replicate n 0, Some ErrInvalid, emit (EvReadAt h n off) w)
      | Some d \<Rightarrow>
          (if refused (EvReadAt h n off) w
           then (replicate n 0, Some ErrIO, emit (EvReadAt h n off) w)
           else case handles w d of
             None \<Rightarrow> (replicate n 0, Some ErrInvalid, emit (EvReadAt h n off) w)
           | Some p \<Rightarrow>
               (if off < 0 then (replicate n 0, Some ErrInvalid, emit (EvReadAt h n off) w)
                else case fs w p of
                  None \<Rightarrow> (replicate n 0, Some ErrIO, emit (EvReadAt h n off) w)
                | Some nd \<Rightarrow>
                    (if isDir nd \<or> length (contents nd) < nat off + n
                     then (replicate n 0, Some ErrIO, emit (EvReadAt h n off) w)
                     else (take n (drop (nat off) (contents nd)), None,
                           emit (EvReadAt h n off) w)))))"

definition os_Remove :: "path \<Rightarrow> world \<Rightarrow> error option \<times> world" where
  "os_Remove p w =
     (if refused (EvRemove p) w then (Some ErrIO, emit (EvRemove p) w)
      else case fs w p of
        None \<Rightarrow> (Some ErrNotExist, emit (EvRemove p) w)
      | Some nd \<Rightarrow> (None, emit (EvRemove p) (w\<lparr>fs := (fs w)(p := None)\<rparr>)))"

text \<open>\<open>osutil.Rename\<close>: the source replaces the destination.\<close>

definition osutil_Rename :: "path \<Rightarrow> path \<Rightarrow> world \<Rightarrow> error option \<times> world" where
  "osutil_Rename src dst w =
     (if refused (EvRename src dst) w then (Some ErrIO, emit (EvRename src dst) w)
      else case fs w src of
        None \<Rightarrow> (Some ErrNotExist, emit (EvRename src dst) w)
      | Some nd \<Rightarrow> (None, emit (EvRename src dst) (w\<lparr>fs := (fs w)(src := None, dst \<mapsto> nd)\<rparr>)))"

definition os_Chmod :: "path \<Rightarrow> 32 word \<Rightarrow> world \<Rightarrow> error option \<times> world" where
  "os_Chmod p m w =
     (if refused (EvChmod p m) w then (Some ErrIO, emit (EvChmod p m) w)
      else case fs w p of
        None \<Rightarrow> (Some ErrNotExist, emit (EvChmod p m) w)
      | Some nd \<Rightarrow> (None, emit (EvChmod p m) (w\<lparr>fs := (fs w)(p \<mapsto> nd\<lparr>perm := m AND 511\<rparr>)\<rparr>)))"

definition os_Chtimes :: "path \<Rightarrow> int \<Rightarrow> world \<Rightarrow> error option \<times> world" where
  "os_Chtimes p t w =
     (if refused (EvChtimes p t) w then (Some ErrIO, emit (EvChtimes p t) w)
      else case fs w p of
        None \<Rightarrow> (Some ErrNotExist, emit (EvChtimes p t) w)
      | Some nd \<Rightarrow> (None, emit (EvChtimes p t) (w\<lparr>fs := (fs w)(p \<mapsto> nd\<lparr>modTime := t\<rparr>)\<rparr>)))"

text \<open>\<open>osutil.HideFile\<close> and \<open>osutil.ShowFile\<close> set and clear the hidden attribute; the
  puller ignores their results.\<close>

definition osutil_HideFile :: "path \<Rightarrow> world \<Rightarrow> world" where
  "osutil_HideFile p w =
     (case fs w p of
        None \<Rightarrow> emit (EvHideFile p) w
      | Some nd \<Rightarrow> emit (EvHideFile p) (w\<lparr>fs := (fs w)(p \<mapsto> nd\<lparr>hidden := True\<rparr>)\<rparr>))"

definition osutil_ShowFile :: "path \<Rightarrow> world \<Rightarrow> world" where
  "osutil_ShowFile p w =
     (case fs w p of
        None \<Rightarrow> emit (EvShowFile p) w
      | Some nd \<Rightarrow> emit (EvShowFile p) (w\<lparr>fs := (fs w)(p \<mapsto> nd\<lparr>hidden := False\<rparr>)\<rparr>))"

text \<open>
  A versioner is a parameter: \<open>Archive(path)\<close> acts on the file system and returns an
  error or nil.
\<close>

type_synonym versioner = "path \<Rightarrow> (path \<rightharpoonup> fnode) \<Rightarrow> error option \<times> (path \<rightharpoonup> fnode)"

definition versioner_Archive :: "versioner \<Rightarrow> path \<Rightarrow> world \<Rightarrow> error option \<times> world" where
  "versioner_Archive v p w =
     (fst (v p (fs w)), emit (EvArchive p) (w\<lparr>fs := snd (v p (fs w))\<rparr>))"

text \<open>\<open>p.model.updateLocal(repo, f)\<close>: the model is outside; the call is recorded.\<close>

definition updateLocal :: "File \<Rightarrow> world \<Rightarrow> world" where
  "updateLocal f w = emit (EvUpdateLocal f) w"

section \<open>The puller\<close>

text \<open>
  What the puller reaches through \<open>p.model\<close> and through the packages \<open>protocol\<close>,
  \<open>scanner\<close> and \<open>filepath\<close>, none of which is part of the source file: parameters.
  \<open>Availability name\<close> stands for \<open>p.model.repoFiles[repo].Availability(name)\<close>.
\<close>

record env =
  cm :: cid_Map
  Availability :: "string \<Rightarrow> 64 word"
  CurrentRepoFile :: "string \<Rightarrow> File"
  IsDirectory :: "32 word \<Rightarrow> bool"
  IsDeleted :: "32 word \<Rightarrow> bool"
  HasPermissionBits :: "32 word \<Rightarrow> bool"
  filepath_Join :: "string \<Rightarrow> string \<Rightarrow> string"
  filepath_Dir :: "string \<Rightarrow> string"
  TempName :: "string \<Rightarrow> string"
  scanner_Blocks :: "8 word list \<Rightarrow> Block list"

record RepositoryConfiguration =
  ID :: string
  Directory :: string
  IgnorePerms :: bool

record puller =
  repoCfg :: RepositoryConfiguration
  oustandingPerNode :: activityMap
  openFiles :: "string \<rightharpoonup> openFile"
  versioner :: "versioner option"

text \<open>\<open>of := p.openFiles[name]\<close>: the zero value when there is no entry.\<close>

definition getOpenFile :: "puller \<Rightarrow> string \<Rightarrow> openFile" where
  "getOpenFile p name = (case openFiles p name of None \<Rightarrow> zeroOpenFile | Some x \<Rightarrow> x)"

definition putOpenFile :: "string \<Rightarrow> openFile \<Rightarrow> puller \<Rightarrow> puller" where
  "putOpenFile name x p = p\<lparr>openFiles := (openFiles p)(name \<mapsto> x)\<rparr>"

definition deleteOpenFile :: "string \<Rightarrow> puller \<Rightarrow> puller" where
  "deleteOpenFile name p = p\<lparr>openFiles := (openFiles p)(name := None)\<rparr>"

subsection \<open>closeFile\<close>

text \<open>
  \<open>scanner.Blocks(fd, scanner.StandardBlockSize)\<close> hashes what the handle reads; its error
  is dropped by the caller (\<open>hb, _ :=\<close>), so an unreadable handle yields no blocks.
\<close>

definition rehash :: "env \<Rightarrow> fd option \<Rightarrow> world \<Rightarrow> Block list \<times> world" where
  "rehash e h w =
     (case h of
        None \<Rightarrow> ([], emit (EvBlocks h) w)
      | Some d \<Rightarrow>
          (case handles w d of
             None \<Rightarrow> ([], emit (EvBlocks h) w)
           | Some p \<Rightarrow>
               (case fs w p of
                  None \<Rightarrow> ([], emit (EvBlocks h) w)
                | Some nd \<Rightarrow> (scanner_Blocks e (contents nd), emit (EvBlocks h) w))))"

text \<open>The loop \<open>for i := range hb\<close> comparing \<open>hb[i].Hash\<close> with \<open>f.Blocks[i].Hash\<close>; it is
  entered only with lists of equal length.\<close>

fun hashesEqual :: "Block list \<Rightarrow> Block list \<Rightarrow> bool" where
  "hashesEqual [] fb = True"
| "hashesEqual (h # hb) [] = False"
| "hashesEqual (h # hb) (b # fb) = (if Hash h \<noteq> Hash b then False else hashesEqual hb fb)"

text \<open>The last statements of \<open>closeFile\<close>: rename and, on success, \<open>updateLocal\<close>.\<close>

definition renameAndUpdate :: "File \<Rightarrow> openFile \<Rightarrow> world \<Rightarrow> world" where
  "renameAndUpdate f x w =
     (let (err, w1) = osutil_Rename (of_temp x) (of_filepath x) w in
      if err = None then updateLocal f w1 else w1)"

text \<open>\<open>closeFile\<close> from \<open>os.Open(of.temp)\<close> to its last statement, every \<open>return\<close> a branch.\<close>

definition closeFileBody :: "env \<Rightarrow> File \<Rightarrow> openFile \<Rightarrow> puller \<Rightarrow> world \<Rightarrow> world" where
  "closeFileBody e f x p w =
     (let (h, err, w1) = os_Open (of_temp x) w in
      if err \<noteq> None then w1
      else
        let (hb, w2) = rehash e h w1;
            w3 = snd (file_Close h w2)
        in
        if length hb \<noteq> length (Blocks f) then w3
        else if \<not> hashesEqual hb (Blocks f) then w3
        else
          let w4 = snd (os_Chtimes (of_temp x) (Modified f) w3);
              w5 = (if \<not> IgnorePerms (repoCfg p) \<and> HasPermissionBits e (Flags f)
                    then snd (os_Chmod (of_temp x) (Flags f AND 511) w4) else w4);
              w6 = osutil_ShowFile (of_temp x) w5
          in
          case versioner p of
            None \<Rightarrow> renameAndUpdate f x w6
          | Some v \<Rightarrow>
              (let (aerr, w7) = versioner_Archive v (of_filepath x) w6 in
               if aerr \<noteq> None then w7 else renameAndUpdate f x w7))"

text \<open>
  \<open>closeFile\<close>. The event \<open>EvCloseFile\<close> marks the entry into the function (the place of
  its first debug line). The deferred \<open>os.Remove(of.temp)\<close> runs after every return.
\<close>

definition closeFile :: "env \<Rightarrow> File \<Rightarrow> puller \<times> world \<Rightarrow> puller \<times> world" where
  "closeFile e f s =
     (let p = fst s;
          w0 = emit (EvCloseFile (Name f)) (snd s);
          x = getOpenFile p (Name f);
          w1 = snd (file_Close (of_file x) w0);
          p1 = deleteOpenFile (Name f) p;
          w2 = closeFileBody e f x p1 w1
      in (p1, snd (os_Remove (of_temp x) w2)))"

subsection \<open>handleRequestResult\<close>

definition handleRequestResult :: "env \<Rightarrow> requestResult \<Rightarrow> puller \<times> world \<Rightarrow> puller \<times> world" where
  "handleRequestResult e res s =
     (let p = (fst s)\<lparr>oustandingPerNode := decrease (oustandingPerNode (fst s)) (res_node res)\<rparr>;
          w = snd s;
          f = res_file res
      in
      case openFiles p (Name f) of
        None \<Rightarrow> (p, w)
      | Some x \<Rightarrow>
          if of_err x \<noteq> None then (p, w)
          else
            let (werr, w1) = file_WriteAt (of_file x) (res_data res) (res_offset res) w;
                x1 = x\<lparr>of_err := werr, of_outstanding := of_outstanding x - 1\<rparr>;
                p1 = putOpenFile (Name f) x1 p
            in
            if of_done x1 \<and> of_outstanding x1 = 0 then closeFile e f (p1, w1) else (p1, w1))"

subsection \<open>handleCopyBlock\<close>

text \<open>
  The loop \<open>for _, b := range b.copy\<close>. \<open>buffers.Get(int(b.Size))\<close> is a buffer of
  \<open>b.Size\<close> bytes. On an error the handles are closed, the error is latched in the table
  and the function returns.
\<close>

fun copyLoop :: "fd option \<Rightarrow> string \<Rightarrow> openFile \<Rightarrow> Block list \<Rightarrow> puller \<times> world \<Rightarrow> puller \<times> world" where
  "copyLoop exfd name x [] s = s"
| "copyLoop exfd name x (cb # rest) s =
     (let (bs, rerr, w1) = file_ReadAt exfd (unat (Size cb)) (Offset cb) (snd s);
          (err, w2) = (if rerr = None then file_WriteAt (of_file x) bs (Offset cb) w1
                       else (rerr, w1))
      in
      if err \<noteq> None
      then
        (let w3 = snd (file_Close exfd w2);
             w4 = snd (file_Close (of_file x) w3)
         in (putOpenFile name (x\<lparr>of_err := err, of_file := None\<rparr>) (fst s), w4))
      else copyLoop exfd name x rest (fst s, w2))"

definition handleCopyBlock :: "bqBlock \<Rightarrow> puller \<times> world \<Rightarrow> puller \<times> world" where
  "handleCopyBlock b s =
     (let f = bq_file b;
          x = getOpenFile (fst s) (Name f);
          (exfd, err, w1) = os_Open (of_filepath x) (snd s)
      in
      if err \<noteq> None
      then
        (let w2 = snd (file_Close (of_file x) w1)
         in (putOpenFile (Name f) (x\<lparr>of_err := err, of_file := None\<rparr>) (fst s), w2))
      else
        (let s1 = copyLoop exfd (Name f) x (bq_copy b) (fst s, w1)
         in (fst s1, snd (file_Close exfd (snd s1)))))"

subsection \<open>handleRequestBlock\<close>

text \<open>
  The goroutine that calls \<open>requestGlobal\<close> and later sends a \<open>requestResult\<close> is recorded
  as the event \<open>EvRequestGlobal node name offset size\<close>; its result arrives as a later
  \<open>handleRequestResult\<close>. The result \<open>None\<close> is the \<open>panic\<close> for a file that is not open.
\<close>

definition handleRequestBlock :: "env \<Rightarrow> bqBlock \<Rightarrow> puller \<times> world \<Rightarrow> (bool \<times> puller \<times> world) option" where
  "handleRequestBlock e b s =
     (let f = bq_file b in
      case openFiles (fst s) (Name f) of
        None \<Rightarrow> None
      | Some x \<Rightarrow>
          (let (node, m) = leastBusyNode (oustandingPerNode (fst s)) (of_availability x) (cm e);
               p = (fst s)\<lparr>oustandingPerNode := m\<rparr>
           in
           if length node = 0
           then
             (let x1 = x\<lparr>of_err := Some errNoNode\<rparr>;
                  (x2, w1) =
                    (if of_file x1 \<noteq> None
                     then (x1\<lparr>of_file := None\<rparr>,
                           snd (os_Remove (of_temp x1) (snd (file_Close (of_file x1) (snd s)))))
                     else (x1, snd s))
              in
              if bq_last b then Some (True, deleteOpenFile (Name f) p, w1)
              else Some (True, putOpenFile (Name f) x2 p, w1))
           else
             (let x1 = x\<lparr>of_outstanding := of_outstanding x + 1\<rparr> in
              Some (False, putOpenFile (Name f) x1 p,
                    emit (EvRequestGlobal node (Name f) (Offset (bq_block b)) (Size (bq_block b)))
                      (snd s)))))"

subsection \<open>handleEmptyBlock\<close>

text \<open>The not-deleted branch after a successful \<open>os.Chtimes\<close> and (if made) \<open>os.Chmod\<close>.\<close>

definition showAndRename :: "File \<Rightarrow> openFile \<Rightarrow> world \<Rightarrow> world" where
  "showAndRename f x w =
     (let w1 = osutil_ShowFile (of_temp x) w;
          (err, w2) = osutil_Rename (of_temp x) (of_filepath x) w1
      in if err = None then updateLocal f w2 else w2)"

text \<open>The statement \<open>if p.versioner != nil { ... } else if err := os.Remove(of.filepath); ...\<close>
  of the deletion branch: archive or remove the destination, then \<open>updateLocal\<close>.\<close>

definition archiveOrRemove :: "puller \<Rightarrow> File \<Rightarrow> openFile \<Rightarrow> world \<Rightarrow> world" where
  "archiveOrRemove p f x w =
     (case versioner p of
        Some v \<Rightarrow>
          (let (err, w1) = versioner_Archive v (of_filepath x) w in
           if err = None then updateLocal f w1 else w1)
      | None \<Rightarrow>
          (let (err, w1) = os_Remove (of_filepath x) w in
           if err = None \<or> err = Some ErrNotExist then updateLocal f w1 else w1))"

definition handleEmptyBlock :: "env \<Rightarrow> bqBlock \<Rightarrow> puller \<times> world \<Rightarrow> puller \<times> world" where
  "handleEmptyBlock e b s =
     (let f = bq_file b;
          p = fst s;
          x = getOpenFile p (Name f);
          w1 = (if bq_last b \<and> of_err x = None then snd (file_Close (of_file x) (snd s))
                else snd s)
      in
      if IsDeleted e (Flags f)
      then
        (let w2 = snd (os_Remove (of_temp x) w1);
             w3 = snd (os_Chmod (of_filepath x) 438 w2)
         in (deleteOpenFile (Name f) p, archiveOrRemove p f x w3))
      else
        (let (terr, w2) = os_Chtimes (of_temp x) (Modified f) w1 in
         if terr \<noteq> None then (deleteOpenFile (Name f) p, w2)
         else if \<not> IgnorePerms (repoCfg p) \<and> HasPermissionBits e (Flags f)
         then
           (let (merr, w3) = os_Chmod (of_temp x) (Flags f AND 511) w2 in
            if merr \<noteq> None then (deleteOpenFile (Name f) p, w3)
            else (deleteOpenFile (Name f) p, showAndRename f x w3))
         else (deleteOpenFile (Name f) p, showAndRename f x w2)))"

subsection \<open>handleBlock\<close>

text \<open>\<open>handleBlock\<close> from the test \<open>if of.err != nil\<close> on; \<open>x\<close> is the local \<open>of\<close>.\<close>

definition dispatchBlock :: "env \<Rightarrow> bqBlock \<Rightarrow> openFile \<Rightarrow> puller \<times> world \<Rightarrow> (bool \<times> puller \<times> world) option" where
  "dispatchBlock e b x s =
     (let f = bq_file b in
      if of_err x \<noteq> None
      then
        (if bq_last b then Some (True, deleteOpenFile (Name f) (fst s), snd s)
         else Some (True, fst s, snd s))
      else
        (let s1 = (putOpenFile (Name f) x (fst s), snd s) in
         if length (bq_copy b) > 0
         then (let s2 = handleCopyBlock b s1 in Some (True, fst s2, snd s2))
         else if Size (bq_block b) > 0
         then handleRequestBlock e b s1
         else (let s2 = handleEmptyBlock e b s1 in Some (True, fst s2, snd s2))))"

text \<open>The branch \<open>if !ok\<close> of \<open>handleBlock\<close>: the first block of a file opens it.\<close>

definition openNewFile :: "env \<Rightarrow> bqBlock \<Rightarrow> openFile \<Rightarrow> puller \<times> world \<Rightarrow> (bool \<times> puller \<times> world) option" where
  "openNewFile e b x s =
     (let f = bq_file b;
          p = fst s;
          x1 = x\<lparr>of_availability := Availability e (Name f),
                 of_filepath := filepath_Join e (Directory (repoCfg p)) (Name f),
                 of_temp := filepath_Join e (Directory (repoCfg p)) (TempName e (Name f))\<rparr>;
          dirName = filepath_Dir e (of_filepath x1);
          (serr, w1) = os_Stat dirName (snd s);
          w2 = (if serr \<noteq> None then snd (os_MkdirAll dirName 511 w1) else w1);
          (h, cerr, w3) = os_Create (of_temp x1) w2;
          x2 = x1\<lparr>of_file := h, of_err := cerr\<rparr>
      in
      if cerr \<noteq> None
      then (if \<not> bq_last b then Some (True, putOpenFile (Name f) x2 p, w3)
            else Some (True, p, w3))
      else dispatchBlock e b x2 (p, osutil_HideFile (of_temp x2) w3))"

definition handleBlock :: "env \<Rightarrow> bqBlock \<Rightarrow> puller \<times> world \<Rightarrow> (bool \<times> puller \<times> world) option" where
  "handleBlock e b s =
     (let f = bq_file b;
          p = fst s
      in
      if IsDirectory e (Flags f)
      then
        (if \<not> IsDeleted e (Flags f)
         then
           (let path = filepath_Join e (Directory (repoCfg p)) (Name f);
                (err, w1) = os_Stat path (snd s);
                w2 = (if err \<noteq> None \<and> err = Some ErrNotExist
                      then snd (os_MkdirAll path 511 w1) else w1)
            in Some (True, p, updateLocal f w2))
         else Some (True, p, updateLocal f (snd s)))
      else
        (case openFiles p (Name f) of
           None \<Rightarrow> openNewFile e b (zeroOpenFile\<lparr>of_done := bq_last b\<rparr>) s
         | Some x \<Rightarrow> dispatchBlock e b (x\<lparr>of_done := bq_last b\<rparr>) s))"

section \<open>Directory fixup\<close>

























section \<open>Reading the trace\<close>

text \<open>The names for which \<open>closeFile\<close> was entered, in order.\<close>

fun closes :: "event list \<Rightarrow> string list" where
  "closes [] = []"
| "closes (EvCloseFile n # es) = n # closes es"
| "closes (ev # es) = closes es"

fun isRename :: "event \<Rightarrow> bool" where
  "isRename (EvRename src dst) = True"
| "isRename ev = False"

fun isArchive :: "event \<Rightarrow> bool" where
  "isArchive (EvArchive p) = True"
| "isArchive ev = False"

fun isUpdateLocal :: "event \<Rightarrow> bool" where
  "isUpdateLocal (EvUpdateLocal f) = True"
| "isUpdateLocal ev = False"

fun isRemove :: "event \<Rightarrow> bool" where
  "isRemove (EvRemove p) = True"
| "isRemove ev = False"

fun isMkdirAll :: "event \<Rightarrow> bool" where
  "isMkdirAll (EvMkdirAll p m) = True"
| "isMkdirAll ev = False"

text \<open>A hash mismatch between the blocks \<open>hb\<close> of the re-hashed temporary file and the
  blocks \<open>fb\<close> of the target: another number of blocks, or a block with another hash.\<close>

definition blocksDiffer :: "Block list \<Rightarrow> Block list \<Rightarrow> bool" where
  "blocksDiffer hb fb =
     (length hb \<noteq> length fb \<or> (\<exists>i<length fb. Hash (hb ! i) \<noteq> Hash (fb ! i)))"

text \<open>
  The world in which the deletion branch of \<open>handleEmptyBlock\<close> reaches the statement
  that archives or removes the destination: after the \<open>Close\<close> of a last item without
  error, \<open>os.Remove(of.temp)\<close> and \<open>os.Chmod(of.filepath, 0666)\<close>.
\<close>

definition beforeRemove :: "bqBlock \<Rightarrow> puller \<Rightarrow> world \<Rightarrow> world" where
  "beforeRemove b p w =
     (let x = getOpenFile p (Name (bq_file b));
          w1 = (if bq_last b \<and> of_err x = None then snd (file_Close (of_file x) w) else w)
      in snd (os_Chmod (of_filepath x) 438 (snd (os_Remove (of_temp x) w1))))"

section \<open>A small concrete repository\<close>

text \<open>
  One file \<open>a\<close> of one block in the repository directory \<open>r\<close>, with its temporary file
  \<open>r/.a\<close> open for writing, and one peer \<open>n1\<close> with connection id 1. The flag tests are
  those of the protocol's bits 12 (deleted), 14 (directory) and 15 (no permission bits);
  the toy block hash of a content is the content itself.
\<close>

definition exEnv :: env where
  "exEnv = \<lparr>cm = \<lparr>LocalID = 0, Names = [''n1''], Get = (\<lambda>n. 1)\<rparr>,
     Availability = (\<lambda>n. 2),
     CurrentRepoFile = (\<lambda>n. \<lparr>Name = n, Flags = 0, Modified = 7, Blocks = []\<rparr>),
     IsDirectory = (\<lambda>fl. fl AND 16384 \<noteq> 0),
     IsDeleted = (\<lambda>fl. fl AND 4096 \<noteq> 0),
     HasPermissionBits = (\<lambda>fl. fl AND 32768 = 0),
     filepath_Join = (\<lambda>d n. d @ ''/'' @ n),
     filepath_Dir = (\<lambda>p. ''r''),
     TempName = (\<lambda>n. ''.'' @ n),
     scanner_Blocks = (\<lambda>c. [\<lparr>Offset = 0, Size = 1, Hash = c\<rparr>])\<rparr>"

definition exFile :: File where
  "exFile = \<lparr>Name = ''a'', Flags = 0, Modified = 7, Blocks = [\<lparr>Offset = 0, Size = 1, Hash = [1]\<rparr>]\<rparr>"

definition exOpen :: openFile where
  "exOpen = \<lparr>of_filepath = ''r/a'', of_temp = ''r/.a'', of_availability = 2, of_file = Some 0,
     of_err = None, of_outstanding = 1, of_done = True\<rparr>"

definition exPuller :: puller where
  "exPuller = \<lparr>repoCfg = \<lparr>ID = ''d'', Directory = ''r'', IgnorePerms = False\<rparr>,
     oustandingPerNode = [''n1'' \<mapsto> 1], openFiles = [''a'' \<mapsto> exOpen], versioner = None\<rparr>"

definition exNode :: "8 word list \<Rightarrow> fnode" where
  "exNode c = \<lparr>isDir = False, contents = c, modTime = 3, perm = 420, hidden = False\<rparr>"

text \<open>The world in which the temporary file holds the bytes \<open>c\<close> and the environment
  refuses the calls \<open>bad\<close>; the destination \<open>r/a\<close> does not exist.\<close>

definition exWorldWith :: "8 word list \<Rightarrow> (event \<Rightarrow> bool) \<Rightarrow> world" where
  "exWorldWith c bad = \<lparr>fs = [''r/.a'' \<mapsto> exNode c], handles = [0 \<mapsto> ''r/.a''], nextfd = 1,
     now = 9, trace = [], fails = (\<lambda>i. bad)\<rparr>"

definition exWorld :: world where
  "exWorld = exWorldWith [] (\<lambda>ev. False)"

text \<open>A block item of the file: a block of \<open>sz\<close> bytes at offset 0, nothing to copy.\<close>

definition exBlock :: "32 word \<Rightarrow> bool \<Rightarrow> bqBlock" where
  "exBlock sz l = \<lparr>bq_file = exFile, bq_block = \<lparr>Offset = 0, Size = sz, Hash = [1]\<rparr>,
     bq_copy = [], bq_last = l\<rparr>"

text \<open>The one item of a version of the file that has no blocks: a directory or a
  tombstone, by its flags.\<close>

definition exItem :: "32 word \<Rightarrow> bqBlock" where
  "exItem fl = \<lparr>bq_file = exFile\<lparr>Flags := fl, Blocks := []\<rparr>,
     bq_block = \<lparr>Offset = 0, Size = 0, Hash = []\<rparr>, bq_copy = [], bq_last = True\<rparr>"

text \<open>The result of a request to peer \<open>n1\<close> for that block, with its bytes and its error.\<close>

definition exResult :: "8 word list \<Rightarrow> error option \<Rightarrow> requestResult" where
  "exResult d err = \<lparr>res_node = ''n1'', res_file = exFile, res_filepath = ''r/a'', res_offset = 0,
     res_data = d, res_err = err\<rparr>"



section \<open>Every call appends its event and leaves the refusals alone\<close>

lemma trace_emit: "trace (emit ev w) = trace w @ [ev]"
  by (simp add: emit_def)

lemma fails_emit: "fails (emit ev w) = fails w"
  by (simp add: emit_def)

lemma fs_emit: "fs (emit ev w) = fs w"
  by (simp add: emit_def)

lemma trace_os_Stat: "trace (snd (os_Stat p w)) = trace w @ [EvStat p]"
  by (simp add: os_Stat_def emit_def split: option.splits)

lemma fails_os_Stat: "fails (snd (os_Stat p w)) = fails w"
  by (simp add: os_Stat_def emit_def split: option.splits)

lemma fs_os_Stat: "fs (snd (os_Stat p w)) = fs w"
  by (simp add: os_Stat_def emit_def split: option.splits)

lemma trace_os_MkdirAll: "trace (snd (os_MkdirAll p m w)) = trace w @ [EvMkdirAll p m]"
  by (simp add: os_MkdirAll_def emit_def split: option.splits)

lemma fails_os_MkdirAll: "fails (snd (os_MkdirAll p m w)) = fails w"
  by (simp add: os_MkdirAll_def emit_def split: option.splits)

lemma trace_os_Create: "trace (snd (snd (os_Create p w))) = trace w @ [EvCreate p]"
  by (simp add: os_Create_def emit_def split: option.splits)

lemma fails_os_Create: "fails (snd (snd (os_Create p w))) = fails w"
  by (simp add: os_Create_def emit_def split: option.splits)

lemma trace_os_Open: "trace (snd (snd (os_Open p w))) = trace w @ [EvOpen p]"
  by (simp add: os_Open_def emit_def split: option.splits)

lemma fails_os_Open: "fails (snd (snd (os_Open p w))) = fails w"
  by (simp add: os_Open_def emit_def split: option.splits)

lemma fs_os_Open: "fs (snd (snd (os_Open p w))) = fs w"
  by (simp add: os_Open_def emit_def split: option.splits)

lemma trace_file_Close: "trace (snd (file_Close h w)) = trace w @ [EvClose h]"
  by (simp add: file_Close_def emit_def split: option.splits)

lemma fails_file_Close: "fails (snd (file_Close h w)) = fails w"
  by (simp add: file_Close_def emit_def split: option.splits)

lemma fs_file_Close: "fs (snd (file_Close h w)) = fs w"
  by (simp add: file_Close_def emit_def split: option.splits)

lemma trace_file_WriteAt: "trace (snd (file_WriteAt h d off w)) = trace w @ [EvWriteAt h d off]"
  by (simp add: file_WriteAt_def emit_def split: option.splits)

lemma fails_file_WriteAt: "fails (snd (file_WriteAt h d off w)) = fails w"
  by (simp add: file_WriteAt_def emit_def split: option.splits)

lemma trace_file_ReadAt: "trace (snd (snd (file_ReadAt h n off w))) = trace w @ [EvReadAt h n off]"
  by (simp add: file_ReadAt_def emit_def split: option.splits)

lemma fails_file_ReadAt: "fails (snd (snd (file_ReadAt h n off w))) = fails w"
  by (simp add: file_ReadAt_def emit_def split: option.splits)

lemma fs_file_ReadAt: "fs (snd (snd (file_ReadAt h n off w))) = fs w"
  by (simp add: file_ReadAt_def emit_def split: option.splits)

lemma trace_os_Remove: "trace (snd (os_Remove p w)) = trace w @ [EvRemove p]"
  by (simp add: os_Remove_def emit_def split: option.splits)

lemma fails_os_Remove: "fails (snd (os_Remove p w)) = fails w"
  by (simp add: os_Remove_def emit_def split: option.splits)

lemma trace_osutil_Rename: "trace (snd (osutil_Rename p q w)) = trace w @ [EvRename p q]"
  by (simp add: osutil_Rename_def emit_def split: option.splits)

lemma fails_osutil_Rename: "fails (snd (osutil_Rename p q w)) = fails w"
  by (simp add: osutil_Rename_def emit_def split: option.splits)

lemma trace_os_Chmod: "trace (snd (os_Chmod p m w)) = trace w @ [EvChmod p m]"
  by (simp add: os_Chmod_def emit_def split: option.splits)

lemma fails_os_Chmod: "fails (snd (os_Chmod p m w)) = fails w"
  by (simp add: os_Chmod_def emit_def split: option.splits)

lemma trace_os_Chtimes: "trace (snd (os_Chtimes p t w)) = trace w @ [EvChtimes p t]"
  by (simp add: os_Chtimes_def emit_def split: option.splits)

lemma fails_os_Chtimes: "fails (snd (os_Chtimes p t w)) = fails w"
  by (simp add: os_Chtimes_def emit_def split: option.splits)

lemma trace_osutil_HideFile: "trace (osutil_HideFile p w) = trace w @ [EvHideFile p]"
  by (simp add: osutil_HideFile_def emit_def split: option.splits)

lemma fails_osutil_HideFile: "fails (osutil_HideFile p w) = fails w"
  by (simp add: osutil_HideFile_def emit_def split: option.splits)

lemma trace_osutil_ShowFile: "trace (osutil_ShowFile p w) = trace w @ [EvShowFile p]"
  by (simp add: osutil_ShowFile_def emit_def split: option.splits)

lemma fails_osutil_ShowFile: "fails (osutil_ShowFile p w) = fails w"
  by (simp add: osutil_ShowFile_def emit_def split: option.splits)

lemma trace_versioner_Archive: "trace (snd (versioner_Archive v p w)) = trace w @ [EvArchive p]"
  by (simp add: versioner_Archive_def emit_def split: option.splits)

lemma fails_versioner_Archive: "fails (snd (versioner_Archive v p w)) = fails w"
  by (simp add: versioner_Archive_def emit_def split: option.splits)

lemma trace_updateLocal: "trace (updateLocal f w) = trace w @ [EvUpdateLocal f]"
  by (simp add: updateLocal_def emit_def split: option.splits)

lemma fails_updateLocal: "fails (updateLocal f w) = fails w"
  by (simp add: updateLocal_def emit_def split: option.splits)

lemma fs_updateLocal: "fs (updateLocal f w) = fs w"
  by (simp add: updateLocal_def emit_def split: option.splits)

lemma trace_rehash: "trace (snd (rehash e h w)) = trace w @ [EvBlocks h]"
  by (simp add: rehash_def emit_def split: option.splits)

lemma fails_rehash: "fails (snd (rehash e h w)) = fails w"
  by (simp add: rehash_def emit_def split: option.splits)

lemma fs_rehash: "fs (snd (rehash e h w)) = fs w"
  by (simp add: rehash_def emit_def split: option.splits)

lemmas trace_calls =
  trace_emit trace_os_Stat trace_os_MkdirAll trace_os_Create trace_os_Open
  trace_file_Close trace_file_WriteAt trace_file_ReadAt trace_os_Remove
  trace_osutil_Rename trace_os_Chmod trace_os_Chtimes trace_osutil_HideFile
  trace_osutil_ShowFile trace_versioner_Archive trace_updateLocal trace_rehash

lemmas fails_calls =
  fails_emit fails_os_Stat fails_os_MkdirAll fails_os_Create fails_os_Open
  fails_file_Close fails_file_WriteAt fails_file_ReadAt fails_os_Remove
  fails_osutil_Rename fails_os_Chmod fails_os_Chtimes fails_osutil_HideFile
  fails_osutil_ShowFile fails_versioner_Archive fails_updateLocal fails_rehash

lemmas fs_kept =
  fs_emit fs_os_Stat fs_os_Open fs_file_Close fs_file_ReadAt fs_updateLocal fs_rehash

section \<open>closeFile and handleRequestResult: what they leave in the trace and the tables\<close>

lemma closes_append: "closes (xs @ ys) = closes xs @ closes ys"
  by (induction xs rule: closes.induct) auto

lemma closes_closeFileBody: "closes (trace (closeFileBody e f x p w)) = closes (trace w)"
  by (simp add: closeFileBody_def renameAndUpdate_def Let_def case_prod_beta trace_calls closes_append
      split: option.splits)

lemma closes_closeFile: "closes (trace (snd (closeFile e f s))) = closes (trace (snd s)) @ [Name f]"
  by (simp add: closeFile_def Let_def closes_closeFileBody trace_calls closes_append)

lemma openFiles_closeFile: "openFiles (fst (closeFile e f s)) = (openFiles (fst s))(Name f := None)"
  by (simp add: closeFile_def Let_def deleteOpenFile_def)

lemma oustandingPerNode_closeFile:
  "oustandingPerNode (fst (closeFile e f s)) = oustandingPerNode (fst s)"
  by (simp add: closeFile_def Let_def deleteOpenFile_def)

text \<open>
  C9: a request result decrements the counter of its peer exactly once, whatever happens
  to the result afterwards: the activity map after \<open>handleRequestResult\<close> is the map
  before with the peer's count lowered by one, also when there is no OpenFile for the
  file or the OpenFile carries an error. No other counter changes.
\<close>

theorem handleRequestResult_decrements_once:
  "oustandingPerNode (fst (handleRequestResult e res (p, w)))
     = (oustandingPerNode p)(res_node res \<mapsto> usageOf (oustandingPerNode p) (res_node res) - 1)"
proof (cases "openFiles p (Name (res_file res))")
  case None
  then show ?thesis
    by (simp add: handleRequestResult_def Let_def decrease_def)
next
  case (Some x)
  then show ?thesis
    by (simp add: handleRequestResult_def Let_def case_prod_beta oustandingPerNode_closeFile
          putOpenFile_def decrease_def)
qed

theorem handleRequestResult_decrements_once_witness:
  "oustandingPerNode (fst (handleRequestResult exEnv (exResult [1] None)
       (exPuller\<lparr>openFiles := Map.empty\<rparr>, exWorld))) ''n1'' = Some 0"
  using handleRequestResult_decrements_once [of exEnv "exResult [1] None"
      "exPuller\<lparr>openFiles := Map.empty\<rparr>" exWorld]
  by (simp add: exPuller_def exResult_def usageOf_def)

text \<open>
  C7: a block item of a file that is not a directory and whose OpenFile carries an
  error is handled at once. \<open>handleBlock\<close> returns true; the world is the one before, so
  nothing was copied, requested or finalized and no call was made; the activity map is
  untouched; and the OpenFile leaves the table exactly when the item is the last one.
\<close>

theorem handleBlock_failed_file:
  assumes "\<not> IsDirectory e (Flags (bq_file b))"
    and "openFiles p (Name (bq_file b)) = Some x"
    and "of_err x \<noteq> None"
  shows "handleBlock e b (p, w)
           = Some (True, (if bq_last b then deleteOpenFile (Name (bq_file b)) p else p), w)
         \<and> (openFiles (if bq_last b then deleteOpenFile (Name (bq_file b)) p else p)
               (Name (bq_file b)) = None) = bq_last b"
proof -
  have "dispatchBlock e b (x\<lparr>of_done := bq_last b\<rparr>) (p, w)
          = Some (True, (if bq_last b then deleteOpenFile (Name (bq_file b)) p else p), w)"
    using assms(3) by (simp add: dispatchBlock_def Let_def)
  then have "handleBlock e b (p, w)
          = Some (True, (if bq_last b then deleteOpenFile (Name (bq_file b)) p else p), w)"
    using assms(1,2) by (simp add: handleBlock_def Let_def)
  moreover have "(openFiles (if bq_last b then deleteOpenFile (Name (bq_file b)) p else p)
               (Name (bq_file b)) = None) = bq_last b"
    using assms(2) by (simp add: deleteOpenFile_def)
  ultimately show ?thesis by simp
qed

theorem handleBlock_failed_file_witness:
  "\<not> IsDirectory exEnv (Flags (bq_file (exBlock 1 True)))
   \<and> openFiles (putOpenFile ''a'' (exOpen\<lparr>of_err := Some ErrIO\<rparr>) exPuller) ''a''
       = Some (exOpen\<lparr>of_err := Some ErrIO\<rparr>)
   \<and> handleBlock exEnv (exBlock 1 True)
        (putOpenFile ''a'' (exOpen\<lparr>of_err := Some ErrIO\<rparr>) exPuller, exWorld)
       = Some (True, deleteOpenFile ''a'' (putOpenFile ''a'' (exOpen\<lparr>of_err := Some ErrIO\<rparr>) exPuller),
               exWorld)"
  using handleBlock_failed_file [of exEnv "exBlock 1 True"
      "putOpenFile ''a'' (exOpen\<lparr>of_err := Some ErrIO\<rparr>) exPuller" "exOpen\<lparr>of_err := Some ErrIO\<rparr>" exWorld]
  by (simp add: exEnv_def exBlock_def exFile_def putOpenFile_def)

lemma closes_handleRequestResult:
  "closes (trace (snd (handleRequestResult e res (p, w))))
     = closes (trace w) @
       (case openFiles p (Name (res_file res)) of
          None \<Rightarrow> []
        | Some x \<Rightarrow> if of_err x = None \<and> of_done x \<and> of_outstanding x - 1 = 0
                    then [Name (res_file res)] else [])"
  by (simp add: handleRequestResult_def Let_def case_prod_beta closes_closeFile trace_calls
        closes_append putOpenFile_def split: option.splits)

lemma openFiles_handleRequestResult_closed:
  "openFiles p (Name (res_file res)) = Some x \<Longrightarrow> of_err x = None \<Longrightarrow> of_done x
   \<Longrightarrow> of_outstanding x - 1 = 0
   \<Longrightarrow> openFiles (fst (handleRequestResult e res (p, w))) (Name (res_file res)) = None"
  by (simp add: handleRequestResult_def Let_def case_prod_beta openFiles_closeFile
        putOpenFile_def split: option.splits)

lemma handleRequestResult_no_entry:
  "openFiles (fst s) (Name (res_file res)) = None \<Longrightarrow>
     handleRequestResult e res s
       = ((fst s)\<lparr>oustandingPerNode := decrease (oustandingPerNode (fst s)) (res_node res)\<rparr>, snd s)"
  by (simp add: handleRequestResult_def Let_def)

subsection \<open>handleBlock never enters closeFile\<close>

lemma closes_copyLoop: "closes (trace (snd (copyLoop exfd name x bs s))) = closes (trace (snd s))"
proof (induction bs arbitrary: s)
  case Nil
  then show ?case by simp
next
  case (Cons cb rest)
  show ?case
    by (simp add: Let_def case_prod_beta Cons.IH trace_calls closes_append)
qed

lemma closes_handleCopyBlock: "closes (trace (snd (handleCopyBlock b s))) = closes (trace (snd s))"
  by (simp add: handleCopyBlock_def Let_def case_prod_beta closes_copyLoop trace_calls closes_append)

lemma closes_handleRequestBlock:
  "handleRequestBlock e b s = Some r \<Longrightarrow> closes (trace (snd (snd r))) = closes (trace (snd s))"
  by (auto simp: handleRequestBlock_def Let_def case_prod_beta trace_calls closes_append
      split: option.splits if_splits)

lemma closes_showAndRename: "closes (trace (showAndRename f x w)) = closes (trace w)"
  by (simp add: showAndRename_def Let_def case_prod_beta trace_calls closes_append)

lemma closes_archiveOrRemove: "closes (trace (archiveOrRemove p f x w)) = closes (trace w)"
  by (simp add: archiveOrRemove_def Let_def case_prod_beta trace_calls closes_append
      split: option.splits)

lemma closes_handleEmptyBlock:
  "closes (trace (snd (handleEmptyBlock e b s))) = closes (trace (snd s))"
  by (simp add: handleEmptyBlock_def Let_def case_prod_beta closes_showAndRename
        closes_archiveOrRemove trace_calls closes_append)

lemma closes_dispatchBlock:
  "dispatchBlock e b x s = Some r \<Longrightarrow> closes (trace (snd (snd r))) = closes (trace (snd s))"
  using closes_handleRequestBlock[of e b "(putOpenFile (Name (bq_file b)) x (fst s), snd s)" r]
  by (auto simp: dispatchBlock_def Let_def closes_handleCopyBlock closes_handleEmptyBlock
      split: if_splits)

lemma closes_openNewFile:
  "openNewFile e b x s = Some r \<Longrightarrow> closes (trace (snd (snd r))) = closes (trace (snd s))"
  by (auto simp: openNewFile_def Let_def case_prod_beta trace_calls closes_append
      dest!: closes_dispatchBlock split: if_splits)

lemma closes_handleBlock:
  "handleBlock e b s = Some r \<Longrightarrow> closes (trace (snd (snd r))) = closes (trace (snd s))"
  by (auto simp: handleBlock_def Let_def case_prod_beta trace_calls closes_append
      dest!: closes_dispatchBlock closes_openNewFile split: if_splits option.splits)

text \<open>
  C5: \<open>closeFile\<close> runs at most once per OpenFile, and only under the guard. The names for
  which \<open>closeFile\<close> was entered grow, in one \<open>handleRequestResult\<close>, by the file's name
  exactly when the file has an OpenFile without error whose done flag is set and whose
  outstanding count reaches zero, and not at all otherwise. When \<open>closeFile\<close> ran, the
  OpenFile has left the table, and every later request result for the same name leaves
  the world (and so the trace) and the table as they are: it is discarded, with no
  second finalization. \<open>handleBlock\<close>, the only other handler, never enters \<open>closeFile\<close>.
\<close>

theorem closeFile_at_most_once:
  "closes (trace (snd (handleRequestResult e res (p, w))))
     = closes (trace w) @
       (case openFiles p (Name (res_file res)) of
          None \<Rightarrow> []
        | Some x \<Rightarrow> if of_err x = None \<and> of_done x \<and> of_outstanding x - 1 = 0
                    then [Name (res_file res)] else [])
   \<and> (closes (trace (snd (handleRequestResult e res (p, w)))) \<noteq> closes (trace w) \<longrightarrow>
        openFiles (fst (handleRequestResult e res (p, w))) (Name (res_file res)) = None
        \<and> (\<forall>res'. Name (res_file res') = Name (res_file res) \<longrightarrow>
              snd (handleRequestResult e res' (handleRequestResult e res (p, w)))
                = snd (handleRequestResult e res (p, w))
              \<and> openFiles (fst (handleRequestResult e res' (handleRequestResult e res (p, w))))
                = openFiles (fst (handleRequestResult e res (p, w)))))
   \<and> (\<forall>b s r. handleBlock e b s = Some r \<longrightarrow> closes (trace (snd (snd r))) = closes (trace (snd s)))"
proof -
  let ?s = "handleRequestResult e res (p, w)"
  note grow = closes_handleRequestResult[of e res p w]
  have gone: "openFiles (fst ?s) (Name (res_file res)) = None"
    if ran: "closes (trace (snd ?s)) \<noteq> closes (trace w)"
  proof (cases "openFiles p (Name (res_file res))")
    case None
    with grow ran show ?thesis by simp
  next
    case (Some x)
    with grow ran have "of_err x = None \<and> of_done x \<and> of_outstanding x - 1 = 0"
      by (simp split: if_splits)
    with Some show ?thesis by (simp add: openFiles_handleRequestResult_closed)
  qed
  have later: "snd (handleRequestResult e res' ?s) = snd ?s
               \<and> openFiles (fst (handleRequestResult e res' ?s)) = openFiles (fst ?s)"
    if "closes (trace (snd ?s)) \<noteq> closes (trace w)" and "Name (res_file res') = Name (res_file res)"
    for res'
  proof -
    from that gone have "openFiles (fst ?s) (Name (res_file res')) = None" by simp
    then show ?thesis by (simp add: handleRequestResult_no_entry)
  qed
  from grow gone later closes_handleBlock show ?thesis by blast
qed

theorem closeFile_at_most_once_witness:
  "closes (trace (snd (handleRequestResult exEnv (exResult [1] None) (exPuller, exWorld)))) = [''a'']
   \<and> openFiles (fst (handleRequestResult exEnv (exResult [1] None) (exPuller, exWorld))) ''a'' = None
   \<and> snd (handleRequestResult exEnv (exResult [2] None)
             (handleRequestResult exEnv (exResult [1] None) (exPuller, exWorld)))
       = snd (handleRequestResult exEnv (exResult [1] None) (exPuller, exWorld))"
proof -
  note t = closeFile_at_most_once [of exEnv "exResult [1] None" exPuller exWorld]
  have n: "Name (res_file (exResult [1] None)) = ''a''" "Name (res_file (exResult [2] None)) = ''a''"
    by (simp_all add: exResult_def exFile_def)
  have ran: "closes (trace (snd (handleRequestResult exEnv (exResult [1] None) (exPuller, exWorld))))
               = [''a'']"
    using t by (simp add: n exPuller_def exOpen_def exWorld_def exWorldWith_def)
  then have "closes (trace (snd (handleRequestResult exEnv (exResult [1] None) (exPuller, exWorld))))
               \<noteq> closes (trace exWorld)"
    by (simp add: exWorld_def exWorldWith_def)
  with t n ran show ?thesis by metis
qed

section \<open>closeFile: verification and the steps after it\<close>

lemma hashesEqual_iff:
  "length hb = length fb \<Longrightarrow>
     hashesEqual hb fb = (\<forall>i<length fb. Hash (hb ! i) = Hash (fb ! i))"
proof (induction hb fb rule: hashesEqual.induct)
  case (1 fb)
  then show ?case by simp
next
  case (2 h hb)
  then show ?case by simp
next
  case (3 h hb b fb)
  then show ?case by (auto simp: less_Suc_eq_0_disj)
qed

lemma blocksDiffer_stops:
  "blocksDiffer hb fb \<Longrightarrow> length hb \<noteq> length fb \<or> \<not> hashesEqual hb fb"
  by (auto simp: blocksDiffer_def hashesEqual_iff)

text \<open>On a mismatch the body of \<open>closeFile\<close> only opens, reads and closes the temporary file.\<close>

lemma closeFileBody_mismatch:
  assumes "fs w (of_temp x) = Some nd"
    and "blocksDiffer (scanner_Blocks e (contents nd)) (Blocks f)"
  shows "closeFileBody e f x p w =
           (if refused (EvOpen (of_temp x)) w then emit (EvOpen (of_temp x)) w
            else emit (EvClose (Some (nextfd w))) (emit (EvBlocks (Some (nextfd w)))
                   (emit (EvOpen (of_temp x))
                     (w\<lparr>handles := (handles w)(nextfd w := None), nextfd := Suc (nextfd w)\<rparr>))))"
proof (cases "refused (EvOpen (of_temp x)) w")
  case True
  then show ?thesis by (simp add: closeFileBody_def os_Open_def)
next
  case False
  let ?w1 = "emit (EvOpen (of_temp x))
               (w\<lparr>handles := (handles w)(nextfd w \<mapsto> of_temp x), nextfd := Suc (nextfd w)\<rparr>)"
  have op: "os_Open (of_temp x) w = (Some (nextfd w), None, ?w1)"
    using False assms(1) by (simp add: os_Open_def)
  have rh: "rehash e (Some (nextfd w)) ?w1
              = (scanner_Blocks e (contents nd), emit (EvBlocks (Some (nextfd w))) ?w1)"
    using assms(1) by (simp add: rehash_def emit_def)
  have cl: "snd (file_Close (Some (nextfd w)) (emit (EvBlocks (Some (nextfd w))) ?w1))
         = emit (EvClose (Some (nextfd w))) (emit (EvBlocks (Some (nextfd w)))
                   (emit (EvOpen (of_temp x))
                     (w\<lparr>handles := (handles w)(nextfd w := None), nextfd := Suc (nextfd w)\<rparr>)))"
    by (simp add: file_Close_def emit_def)
  from blocksDiffer_stops[OF assms(2)] show ?thesis
    using False by (auto simp: closeFileBody_def op rh cl Let_def)
qed

text \<open>
  C3: when the re-hashed temporary file has another number of blocks than the target, or
  a block whose hash differs from the target's, \<open>closeFile\<close> makes no rename, no archive
  and no \<open>updateLocal\<close> call; the destination is what it was; and the deferred
  \<open>os.Remove\<close> of the temporary file is the one removal made, after which the temporary
  file is gone unless the environment refuses that call. The temporary name differs
  from the destination's, as every name of the temp namer does.
\<close>

theorem closeFile_hash_mismatch:
  assumes "openFiles p (Name f) = Some x"
    and "fs w (of_temp x) = Some nd"
    and "blocksDiffer (scanner_Blocks e (contents nd)) (Blocks f)"
    and "of_temp x \<noteq> of_filepath x"
  shows "filter isRename (trace (snd (closeFile e f (p, w)))) = filter isRename (trace w)
       \<and> filter isArchive (trace (snd (closeFile e f (p, w)))) = filter isArchive (trace w)
       \<and> filter isUpdateLocal (trace (snd (closeFile e f (p, w)))) = filter isUpdateLocal (trace w)
       \<and> fs (snd (closeFile e f (p, w))) (of_filepath x) = fs w (of_filepath x)
       \<and> filter isRemove (trace (snd (closeFile e f (p, w))))
           = filter isRemove (trace w) @ [EvRemove (of_temp x)]
       \<and> ((\<forall>i. \<not> fails w i (EvRemove (of_temp x))) \<longrightarrow>
             fs (snd (closeFile e f (p, w))) (of_temp x) = None)"
proof -
  let ?w1 = "snd (file_Close (of_file x) (emit (EvCloseFile (Name f)) w))"
  let ?body = "closeFileBody e f x (deleteOpenFile (Name f) p) ?w1"
  have fs1: "fs ?w1 (of_temp x) = Some nd" using assms(2) by (simp add: fs_kept)
  have cf: "closeFile e f (p, w) = (deleteOpenFile (Name f) p, snd (os_Remove (of_temp x) ?body))"
    using assms(1) by (simp add: closeFile_def Let_def getOpenFile_def)
  note body = closeFileBody_mismatch[OF fs1 assms(3), of "deleteOpenFile (Name f) p"]
  have bfs: "fs ?body = fs w"
    by (simp add: body fs_kept)
  have bfails: "fails ?body = fails w"
    by (simp add: body fails_calls)
  have "filter isRename (trace (snd (closeFile e f (p, w)))) = filter isRename (trace w)"
    by (simp add: cf body trace_calls)
  moreover have "filter isArchive (trace (snd (closeFile e f (p, w)))) = filter isArchive (trace w)"
    by (simp add: cf body trace_calls)
  moreover have "filter isUpdateLocal (trace (snd (closeFile e f (p, w))))
                   = filter isUpdateLocal (trace w)"
    by (simp add: cf body trace_calls)
  moreover have "fs (snd (closeFile e f (p, w))) (of_filepath x) = fs w (of_filepath x)"
    using assms(4) by (simp add: cf os_Remove_def bfs fs_emit split: option.splits)
  moreover have "filter isRemove (trace (snd (closeFile e f (p, w))))
                   = filter isRemove (trace w) @ [EvRemove (of_temp x)]"
    by (simp add: cf body trace_calls)
  moreover have "fs (snd (closeFile e f (p, w))) (of_temp x) = None"
    if "\<forall>i. \<not> fails w i (EvRemove (of_temp x))"
    using that by (simp add: cf os_Remove_def refused_def bfs bfails fs_emit split: option.splits)
  ultimately show ?thesis by blast
qed

theorem closeFile_hash_mismatch_witness:
  "openFiles exPuller (Name exFile) = Some exOpen
   \<and> fs (exWorldWith [2] (\<lambda>ev. False)) (of_temp exOpen) = Some (exNode [2])
   \<and> blocksDiffer (scanner_Blocks exEnv (contents (exNode [2]))) (Blocks exFile)
   \<and> of_temp exOpen \<noteq> of_filepath exOpen
   \<and> filter isRename (trace (snd (closeFile exEnv exFile (exPuller, exWorldWith [2] (\<lambda>ev. False))))) = []
   \<and> filter isUpdateLocal
       (trace (snd (closeFile exEnv exFile (exPuller, exWorldWith [2] (\<lambda>ev. False))))) = []
   \<and> fs (snd (closeFile exEnv exFile (exPuller, exWorldWith [2] (\<lambda>ev. False)))) ''r/a'' = None
   \<and> fs (snd (closeFile exEnv exFile (exPuller, exWorldWith [2] (\<lambda>ev. False)))) ''r/.a'' = None"
proof -
  have h1: "openFiles exPuller (Name exFile) = Some exOpen"
    by (simp add: exPuller_def exFile_def)
  have h2: "fs (exWorldWith [2] (\<lambda>ev. False)) (of_temp exOpen) = Some (exNode [2])"
    by (simp add: exWorldWith_def exOpen_def)
  have h3: "blocksDiffer (scanner_Blocks exEnv (contents (exNode [2]))) (Blocks exFile)"
    by (simp add: blocksDiffer_def exEnv_def exNode_def exFile_def)
  have h4: "of_temp exOpen \<noteq> of_filepath exOpen"
    by (simp add: exOpen_def)
  from closeFile_hash_mismatch [OF h1 h2 h3 h4] h1 h2 h3 h4 show ?thesis
    by (simp add: exWorldWith_def exOpen_def)
qed

text \<open>The other steps: a refused \<open>os.Open\<close> and a failing \<open>Archive\<close> do stop \<open>closeFile\<close>
  before the rename.\<close>

lemma closeFileBody_open_refused:
  "refused (EvOpen (of_temp x)) w \<Longrightarrow> closeFileBody e f x p w = emit (EvOpen (of_temp x)) w"
  by (simp add: closeFileBody_def os_Open_def)

lemma renameAndUpdate_failed:
  "fst (osutil_Rename (of_temp x) (of_filepath x) w) \<noteq> None \<Longrightarrow>
     filter isUpdateLocal (trace (renameAndUpdate f x w)) = filter isUpdateLocal (trace w)
     \<and> fs (renameAndUpdate f x w) = fs w"
  by (auto simp: renameAndUpdate_def case_prod_beta trace_calls osutil_Rename_def fs_emit
      split: if_splits option.splits)

text \<open>
  C4: the claim fails for the steps that set the modification time and the mode. In
  the concrete repository the temporary file \<open>r/.a\<close> holds the right bytes and the
  environment refuses \<open>os.Chtimes\<close> on it. \<open>closeFile\<close> goes on all the same: the trace
  shows the refused \<open>Chtimes\<close> followed by the rename over \<open>r/a\<close> and the \<open>updateLocal\<close>
  call, and the destination ends with the old modification time 3, not the target's 7.
  (\<open>handleEmptyBlock\<close> returns on the same two failures.)
\<close>

theorem closeFile_ignores_chtimes_failure:
  "refused (EvChtimes ''r/.a'' 7) (exWorldWith [1] (\<lambda>ev. ev = EvChtimes ''r/.a'' 7))
   \<and> trace (snd (closeFile exEnv exFile
        (exPuller, exWorldWith [1] (\<lambda>ev. ev = EvChtimes ''r/.a'' 7))))
     = [EvCloseFile ''a'', EvClose (Some 0), EvOpen ''r/.a'', EvBlocks (Some 1), EvClose (Some 1),
        EvChtimes ''r/.a'' 7, EvChmod ''r/.a'' 0, EvShowFile ''r/.a'', EvRename ''r/.a'' ''r/a'',
        EvUpdateLocal exFile, EvRemove ''r/.a'']
   \<and> fs (snd (closeFile exEnv exFile
        (exPuller, exWorldWith [1] (\<lambda>ev. ev = EvChtimes ''r/.a'' 7)))) ''r/a''
     = Some \<lparr>isDir = False, contents = [1], modTime = 3, perm = 0, hidden = False\<rparr>
   \<and> Modified exFile = 7"
  by (simp add: closeFile_def closeFileBody_def renameAndUpdate_def Let_def exFile_def exOpen_def
      exPuller_def exWorldWith_def exEnv_def exNode_def getOpenFile_def deleteOpenFile_def
      file_Close_def os_Open_def rehash_def os_Chtimes_def os_Chmod_def osutil_ShowFile_def
      osutil_Rename_def updateLocal_def os_Remove_def refused_def emit_def)

section \<open>handleRequestResult and the error of the request\<close>

text \<open>\<open>handleRequestResult\<close> never reads \<open>res.err\<close>: its outcome is the same for every error.\<close>

lemma handleRequestResult_ignores_err:
  "handleRequestResult e (res\<lparr>res_err := err\<rparr>) s = handleRequestResult e res s"
  by (simp add: handleRequestResult_def Let_def split: option.splits)

text \<open>
  C2: the claim fails. In the concrete repository the file \<open>a\<close> has an OpenFile without
  error and two requests outstanding; a result arrives from peer \<open>n1\<close> that carries the
  error of a failed request and no bytes. After \<open>handleRequestResult\<close> the OpenFile is
  still in the table with no error latched, only its outstanding count lowered, so the
  next items of the file are not short-circuited.
\<close>

theorem handleRequestResult_drops_request_error:
  "res_err (exResult [] (Some ErrRequest)) = Some ErrRequest
   \<and> openFiles (putOpenFile ''a'' (exOpen\<lparr>of_outstanding := 2\<rparr>) exPuller) ''a''
       = Some (exOpen\<lparr>of_outstanding := 2\<rparr>)
   \<and> openFiles (fst (handleRequestResult exEnv (exResult [] (Some ErrRequest))
        (putOpenFile ''a'' (exOpen\<lparr>of_outstanding := 2\<rparr>) exPuller, exWorld))) ''a''
       = Some (exOpen\<lparr>of_outstanding := 1\<rparr>)
   \<and> of_err (exOpen\<lparr>of_outstanding := 1\<rparr>) = None"
  by (simp add: handleRequestResult_def Let_def exResult_def exFile_def putOpenFile_def exOpen_def
      exPuller_def exWorld_def exWorldWith_def file_WriteAt_def refused_def emit_def exNode_def
      writeBytes_def)

section \<open>leastBusyNode\<close>

text \<open>
  The selection itself is as the claim says: when some eligible peer has fewer than
  \<open>2<<30 - 1\<close> outstanding requests, the peer returned is a connected, eligible one with
  the least count; otherwise the empty selection is returned.
\<close>

lemma leastBusyLoop_inv:
  "leastBusyLoop m av c ns (low, sel) = (low', sel') \<Longrightarrow>
     sint low' \<le> sint low
     \<and> (\<forall>n \<in> set ns. eligible c av n \<longrightarrow> sint low' \<le> sint (usageOf m n))
     \<and> ((low' = low \<and> sel' = sel)
         \<or> (sint low' < sint low \<and> sel' \<in> set ns \<and> eligible c av sel' \<and> usageOf m sel' = low'))"
proof (induction ns arbitrary: low sel)
  case Nil
  then show ?case by simp
next
  case (Cons n ns)
  show ?case
  proof (cases "eligible c av n \<and> usageOf m n <s low")
    case True
    with Cons.prems have run: "leastBusyLoop m av c ns (usageOf m n, n) = (low', sel')"
      by (simp add: eligible_def Let_def)
    from Cons.IH[OF run] True show ?thesis
      by (auto simp: word_sless_alt)
  next
    case False
    with Cons.prems have run: "leastBusyLoop m av c ns (low, sel) = (low', sel')"
      by (auto simp: eligible_def Let_def split: if_splits)
    from Cons.IH[OF run] False show ?thesis
      by (auto simp: word_sless_alt)
  qed
qed

lemma leastBusyNode_selects_least_busy:
  assumes "fst (leastBusyNode m av c) = sel"
  shows "(\<exists>n \<in> set (Names c). eligible c av n \<and> sint (usageOf m n) < 2147483647)
           \<longrightarrow> sel \<in> set (Names c) \<and> eligible c av sel
               \<and> (\<forall>n \<in> set (Names c). eligible c av n \<longrightarrow> sint (usageOf m sel) \<le> sint (usageOf m n))"
    and "\<not> (\<exists>n \<in> set (Names c). eligible c av n \<and> sint (usageOf m n) < 2147483647) \<longrightarrow> sel = []"
proof -
  obtain low' sel' where run: "leastBusyLoop m av c (Names c) (2147483647, []) = (low', sel')"
    by (cases "leastBusyLoop m av c (Names c) (2147483647, [])") auto
  with assms have sel: "sel = sel'" by (simp add: leastBusyNode_def)
  have s: "sint (2147483647 :: 64 word) = 2147483647" by simp
  note inv = leastBusyLoop_inv[OF run, unfolded s]
  from inv have least: "\<forall>n \<in> set (Names c). eligible c av n \<longrightarrow> sint low' \<le> sint (usageOf m n)"
    by (rule conjunct1[OF conjunct2])
  from inv consider (none) "low' = 2147483647" "sel' = []"
    | (some) "sint low' < 2147483647" "sel' \<in> set (Names c)" "eligible c av sel'" "usageOf m sel' = low'"
    by blast
  then have both: "((\<exists>n \<in> set (Names c). eligible c av n \<and> sint (usageOf m n) < 2147483647)
           \<longrightarrow> sel' \<in> set (Names c) \<and> eligible c av sel'
               \<and> (\<forall>n \<in> set (Names c). eligible c av n \<longrightarrow> sint (usageOf m sel') \<le> sint (usageOf m n)))
     \<and> (\<not> (\<exists>n \<in> set (Names c). eligible c av n \<and> sint (usageOf m n) < 2147483647) \<longrightarrow> sel' = [])"
  proof cases
    case none
    from least none(1) have "\<forall>n \<in> set (Names c). eligible c av n \<longrightarrow> 2147483647 \<le> sint (usageOf m n)"
      by (simp add: s)
    then have "\<not> (\<exists>n \<in> set (Names c). eligible c av n \<and> sint (usageOf m n) < 2147483647)"
      by fastforce
    with none(2) show ?thesis by blast
  next
    case some
    from some least have "\<forall>n \<in> set (Names c). eligible c av n \<longrightarrow> sint (usageOf m sel') \<le> sint (usageOf m n)"
      by simp
    moreover from some have "\<exists>n \<in> set (Names c). eligible c av n \<and> sint (usageOf m n) < 2147483647"
      by blast
    ultimately show ?thesis using some by blast
  qed
  from both show "(\<exists>n \<in> set (Names c). eligible c av n \<and> sint (usageOf m n) < 2147483647)
           \<longrightarrow> sel \<in> set (Names c) \<and> eligible c av sel
               \<and> (\<forall>n \<in> set (Names c). eligible c av n \<longrightarrow> sint (usageOf m sel) \<le> sint (usageOf m n))"
    unfolding sel by (rule conjunct1)
  from both show "\<not> (\<exists>n \<in> set (Names c). eligible c av n \<and> sint (usageOf m n) < 2147483647) \<longrightarrow> sel = []"
    unfolding sel by (rule conjunct2)
qed

text \<open>\<open>m[selected]++\<close> is not guarded: whatever is returned, its counter is one more.\<close>

lemma leastBusyNode_always_increments:
  "snd (leastBusyNode m availability c) (fst (leastBusyNode m availability c))
     = Some (usageOf m (fst (leastBusyNode m availability c)) + 1)"
  by (simp add: leastBusyNode_def case_prod_beta)

text \<open>
  C1: the last part of the claim fails. With one connected peer \<open>n1\<close> whose availability
  bit is not set, \<open>leastBusyNode\<close> returns the empty selection, and yet the activity map
  has changed: the counter of the empty name, absent before, is now 1.
\<close>

theorem leastBusyNode_counts_empty_selection:
  "fst (leastBusyNode [''n1'' \<mapsto> 1] 0 (cm exEnv)) = []
   \<and> [''n1'' \<mapsto> (1 :: go_int)] [] = None
   \<and> snd (leastBusyNode [''n1'' \<mapsto> 1] 0 (cm exEnv)) [] = Some 1"
  by (simp add: leastBusyNode_def usageOf_def exEnv_def)

section \<open>handleBlock on a directory\<close>

lemma handleBlock_directory_deleted:
  assumes "IsDirectory e (Flags (bq_file b))" and "IsDeleted e (Flags (bq_file b))"
  shows "handleBlock e b (p, w) = Some (True, p, emit (EvUpdateLocal (bq_file b)) w)"
  using assms by (simp add: handleBlock_def updateLocal_def)

lemma handleBlock_directory_present:
  assumes "IsDirectory e (Flags (bq_file b))" and "\<not> IsDeleted e (Flags (bq_file b))"
    and "refused (EvStat (filepath_Join e (Directory (repoCfg p)) (Name (bq_file b)))) w
         \<or> fs w (filepath_Join e (Directory (repoCfg p)) (Name (bq_file b))) \<noteq> None"
  shows "handleBlock e b (p, w)
     = Some (True, p, emit (EvUpdateLocal (bq_file b))
          (emit (EvStat (filepath_Join e (Directory (repoCfg p)) (Name (bq_file b)))) w))"
  using assms by (auto simp: handleBlock_def updateLocal_def os_Stat_def Let_def)

lemma handleBlock_directory_missing:
  assumes "IsDirectory e (Flags (bq_file b))" and "\<not> IsDeleted e (Flags (bq_file b))"
    and "\<not> refused (EvStat (filepath_Join e (Directory (repoCfg p)) (Name (bq_file b)))) w"
    and "fs w (filepath_Join e (Directory (repoCfg p)) (Name (bq_file b))) = None"
  shows "handleBlock e b (p, w)
     = Some (True, p, emit (EvUpdateLocal (bq_file b))
          (snd (os_MkdirAll (filepath_Join e (Directory (repoCfg p)) (Name (bq_file b))) 511
             (emit (EvStat (filepath_Join e (Directory (repoCfg p)) (Name (bq_file b)))) w))))"
  using assms by (auto simp: handleBlock_def updateLocal_def os_Stat_def Let_def)

lemma fs_os_MkdirAll_kept: "fs w q \<noteq> None \<Longrightarrow> fs (snd (os_MkdirAll p m w)) q = fs w q"
  by (auto simp: os_MkdirAll_def fs_emit split: option.splits)

text \<open>
  C8: for an item whose file is a directory, \<open>handleBlock\<close> returns true, leaves the
  puller as it is and calls \<open>updateLocal\<close> once, for that file. It makes no \<open>os.Remove\<close>
  call, and every path that existed still holds what it held: a deleted directory is
  not removed here. \<open>os.MkdirAll\<close> is called, with mode \<open>0777\<close>, exactly when the directory
  is not deleted and \<open>os.Stat\<close> reports that the path does not exist; unless the
  environment refuses a call, the path is then a directory with mode \<open>0777\<close>.
\<close>

theorem handleBlock_directory:
  assumes "IsDirectory e (Flags (bq_file b))"
  shows "\<exists>w'. handleBlock e b (p, w) = Some (True, p, w')
     \<and> filter isUpdateLocal (trace w') = filter isUpdateLocal (trace w) @ [EvUpdateLocal (bq_file b)]
     \<and> filter isRemove (trace w') = filter isRemove (trace w)
     \<and> (\<forall>q. fs w q \<noteq> None \<longrightarrow> fs w' q = fs w q)
     \<and> filter isMkdirAll (trace w')
         = filter isMkdirAll (trace w) @
           (if \<not> IsDeleted e (Flags (bq_file b))
               \<and> \<not> refused (EvStat (filepath_Join e (Directory (repoCfg p)) (Name (bq_file b)))) w
               \<and> fs w (filepath_Join e (Directory (repoCfg p)) (Name (bq_file b))) = None
            then [EvMkdirAll (filepath_Join e (Directory (repoCfg p)) (Name (bq_file b))) 511]
            else [])
     \<and> (\<not> IsDeleted e (Flags (bq_file b))
          \<and> fs w (filepath_Join e (Directory (repoCfg p)) (Name (bq_file b))) = None
          \<and> (\<forall>i ev. \<not> fails w i ev)
        \<longrightarrow> fs w' (filepath_Join e (Directory (repoCfg p)) (Name (bq_file b)))
              = Some \<lparr>isDir = True, contents = [], modTime = now w, perm = 511, hidden = False\<rparr>)"
proof -
  let ?path = "filepath_Join e (Directory (repoCfg p)) (Name (bq_file b))"
  consider (deleted) "IsDeleted e (Flags (bq_file b))"
    | (present) "\<not> IsDeleted e (Flags (bq_file b))" "refused (EvStat ?path) w \<or> fs w ?path \<noteq> None"
    | (missing) "\<not> IsDeleted e (Flags (bq_file b))" "\<not> refused (EvStat ?path) w" "fs w ?path = None"
    by blast
  then show ?thesis
  proof cases
    case deleted
    show ?thesis
      unfolding handleBlock_directory_deleted[OF assms deleted]
      using deleted by (simp add: trace_calls fs_emit)
  next
    case present
    show ?thesis
      unfolding handleBlock_directory_present[OF assms present]
      using present by (auto simp: trace_calls fs_emit refused_def)
  next
    case missing
    show ?thesis
      unfolding handleBlock_directory_missing[OF assms missing]
      using missing
      by (auto simp: trace_calls fs_emit fs_os_MkdirAll_kept os_MkdirAll_def refused_def emit_def)
  qed
qed

theorem handleBlock_directory_witness:
  "IsDirectory exEnv (Flags (bq_file (exItem 16384)))
   \<and> (\<exists>w'. handleBlock exEnv (exItem 16384) (exPuller, exWorld) = Some (True, exPuller, w')
         \<and> filter isUpdateLocal (trace w') = [EvUpdateLocal (bq_file (exItem 16384))]
         \<and> filter isRemove (trace w') = []
         \<and> filter isMkdirAll (trace w') = [EvMkdirAll ''r/a'' 511]
         \<and> fs w' ''r/a''
             = Some \<lparr>isDir = True, contents = [], modTime = 9, perm = 511, hidden = False\<rparr>)"
proof -
  have h: "IsDirectory exEnv (Flags (bq_file (exItem 16384)))"
    by (simp add: exEnv_def exItem_def)
  have path: "filepath_Join exEnv (Directory (repoCfg exPuller)) (Name (bq_file (exItem 16384))) = ''r/a''"
    by (simp add: exEnv_def exPuller_def exItem_def exFile_def)
  have nd: "\<not> IsDeleted exEnv (Flags (bq_file (exItem 16384)))"
    by (simp add: exEnv_def exItem_def)
  have w: "fs exWorld ''r/a'' = None" "trace exWorld = []" "now exWorld = 9"
    "\<forall>i ev. \<not> fails exWorld i ev"
    by (simp_all add: exWorld_def exWorldWith_def)
  from handleBlock_directory [OF h, of exPuller exWorld] h show ?thesis
    unfolding path using nd w by (simp add: refused_def) blast
qed

section \<open>handleEmptyBlock on a tombstone\<close>

lemma os_Remove_absent:
  "\<not> refused (EvRemove q) w \<Longrightarrow> fs w q = None \<Longrightarrow>
     os_Remove q w = (Some ErrNotExist, emit (EvRemove q) w)"
  by (simp add: os_Remove_def)

lemma archiveOrRemove_without_versioner:
  assumes "versioner p = None"
  shows "filter isUpdateLocal (trace (archiveOrRemove p f x w))
           = filter isUpdateLocal (trace w) @
             (if refused (EvRemove (of_filepath x)) w then [] else [EvUpdateLocal f])"
    and "\<not> refused (EvRemove (of_filepath x)) w \<Longrightarrow> fs w (of_filepath x) = None \<Longrightarrow>
           trace (archiveOrRemove p f x w) = trace w @ [EvRemove (of_filepath x), EvUpdateLocal f]"
  using assms
  by (auto simp: archiveOrRemove_def os_Remove_def trace_calls updateLocal_def emit_def
      split: option.splits)

lemma handleEmptyBlock_deleted:
  assumes "IsDeleted e (Flags (bq_file b))"
  shows "snd (handleEmptyBlock e b (p, w))
    = archiveOrRemove p (bq_file b) (getOpenFile p (Name (bq_file b))) (beforeRemove b p w)"
  using assms by (simp add: handleEmptyBlock_def beforeRemove_def Let_def)

lemma fs_absent_os_Remove: "fs w q = None \<Longrightarrow> fs (snd (os_Remove p w)) q = None"
  by (simp add: os_Remove_def fs_emit split: option.splits)

lemma fs_absent_os_Chmod: "fs w q = None \<Longrightarrow> fs (snd (os_Chmod p m w)) q = None"
  by (auto simp: os_Chmod_def fs_emit split: option.splits)

lemma fails_beforeRemove: "fails (beforeRemove b p w) = fails w"
  by (simp add: beforeRemove_def Let_def fails_calls)

lemma updateLocal_beforeRemove:
  "filter isUpdateLocal (trace (beforeRemove b p w)) = filter isUpdateLocal (trace w)"
  by (simp add: beforeRemove_def Let_def trace_calls)

lemma absent_beforeRemove: "fs w q = None \<Longrightarrow> fs (beforeRemove b p w) q = None"
  by (simp add: beforeRemove_def Let_def fs_absent_os_Chmod fs_absent_os_Remove fs_kept)

text \<open>
  C10: in the deletion branch of \<open>handleEmptyBlock\<close> with no versioner, the absence of
  the destination counts as a successful deletion. \<open>updateLocal\<close> is called once unless
  the environment refuses the \<open>os.Remove\<close> of the destination, so both when the removal
  succeeds and when the destination is absent. A destination absent at the start is
  absent when it is to be removed; \<open>os.Remove\<close> then returns the not-exist error, and
  \<open>updateLocal\<close> is the very next call.
\<close>

theorem handleEmptyBlock_absent_destination:
  assumes "IsDeleted e (Flags (bq_file b))" and "versioner p = None"
  shows "filter isUpdateLocal (trace (snd (handleEmptyBlock e b (p, w))))
         = filter isUpdateLocal (trace w) @
           (if refused (EvRemove (of_filepath (getOpenFile p (Name (bq_file b)))))
                 (beforeRemove b p w)
            then [] else [EvUpdateLocal (bq_file b)])
     \<and> (fs w (of_filepath (getOpenFile p (Name (bq_file b)))) = None
          \<and> \<not> refused (EvRemove (of_filepath (getOpenFile p (Name (bq_file b)))))
                 (beforeRemove b p w)
          \<longrightarrow> fst (os_Remove (of_filepath (getOpenFile p (Name (bq_file b)))) (beforeRemove b p w))
                = Some ErrNotExist
              \<and> trace (snd (handleEmptyBlock e b (p, w)))
                  = trace (beforeRemove b p w)
                    @ [EvRemove (of_filepath (getOpenFile p (Name (bq_file b)))),
                       EvUpdateLocal (bq_file b)])"
proof -
  let ?x = "getOpenFile p (Name (bq_file b))"
  let ?w3 = "beforeRemove b p w"
  have run: "snd (handleEmptyBlock e b (p, w)) = archiveOrRemove p (bq_file b) ?x ?w3"
    by (rule handleEmptyBlock_deleted[OF assms(1)])
  have count: "filter isUpdateLocal (trace (snd (handleEmptyBlock e b (p, w))))
         = filter isUpdateLocal (trace w) @
           (if refused (EvRemove (of_filepath ?x)) ?w3 then [] else [EvUpdateLocal (bq_file b)])"
    by (simp only: run archiveOrRemove_without_versioner(1)[OF assms(2)] updateLocal_beforeRemove)
  have notexist: "fst (os_Remove (of_filepath ?x) ?w3) = Some ErrNotExist
      \<and> trace (snd (handleEmptyBlock e b (p, w)))
           = trace ?w3 @ [EvRemove (of_filepath ?x), EvUpdateLocal (bq_file b)]"
    if absent: "fs w (of_filepath ?x) = None" and ok: "\<not> refused (EvRemove (of_filepath ?x)) ?w3"
  proof -
    have gone: "fs ?w3 (of_filepath ?x) = None" by (rule absent_beforeRemove[OF absent])
    have "fst (os_Remove (of_filepath ?x) ?w3) = Some ErrNotExist"
      by (simp only: os_Remove_absent[OF ok gone] fst_conv)
    moreover have "trace (snd (handleEmptyBlock e b (p, w)))
           = trace ?w3 @ [EvRemove (of_filepath ?x), EvUpdateLocal (bq_file b)]"
      by (simp only: run archiveOrRemove_without_versioner(2)[OF assms(2) ok gone])
    ultimately show ?thesis by (rule conjI)
  qed
  show ?thesis
  proof (intro conjI impI)
    show "filter isUpdateLocal (trace (snd (handleEmptyBlock e b (p, w))))
         = filter isUpdateLocal (trace w) @
           (if refused (EvRemove (of_filepath ?x)) ?w3 then [] else [EvUpdateLocal (bq_file b)])"
      by (rule count)
  next
    assume h: "fs w (of_filepath ?x) = None \<and> \<not> refused (EvRemove (of_filepath ?x)) ?w3"
    show "fst (os_Remove (of_filepath ?x) ?w3) = Some ErrNotExist"
      by (rule conjunct1[OF notexist[OF conjunct1[OF h] conjunct2[OF h]]])
  next
    assume h: "fs w (of_filepath ?x) = None \<and> \<not> refused (EvRemove (of_filepath ?x)) ?w3"
    show "trace (snd (handleEmptyBlock e b (p, w)))
           = trace ?w3 @ [EvRemove (of_filepath ?x), EvUpdateLocal (bq_file b)]"
      by (rule conjunct2[OF notexist[OF conjunct1[OF h] conjunct2[OF h]]])
  qed
qed

theorem handleEmptyBlock_absent_destination_witness:
  "IsDeleted exEnv (Flags (bq_file (exItem 4096)))
   \<and> versioner exPuller = None
   \<and> fs exWorld (of_filepath (getOpenFile exPuller (Name (bq_file (exItem 4096))))) = None
   \<and> filter isUpdateLocal (trace (snd (handleEmptyBlock exEnv (exItem 4096) (exPuller, exWorld))))
       = [EvUpdateLocal (bq_file (exItem 4096))]"
proof -
  have h1: "IsDeleted exEnv (Flags (bq_file (exItem 4096)))"
    by (simp add: exEnv_def exItem_def)
  have h2: "versioner exPuller = None"
    by (simp add: exPuller_def)
  have h3: "fs exWorld (of_filepath (getOpenFile exPuller (Name (bq_file (exItem 4096))))) = None"
    by (simp add: exWorld_def exWorldWith_def getOpenFile_def exPuller_def exItem_def exFile_def
          exOpen_def)
  have w: "trace exWorld = []" "fails exWorld = (\<lambda>i ev. False)"
    by (simp_all add: exWorld_def exWorldWith_def)
  have ok: "\<not> refused ev (beforeRemove (exItem 4096) exPuller exWorld)" for ev
    by (simp add: refused_def fails_beforeRemove w)
  from conjunct1[OF handleEmptyBlock_absent_destination [OF h1 h2, of exWorld]]
  have "filter isUpdateLocal (trace (snd (handleEmptyBlock exEnv (exItem 4096) (exPuller, exWorld))))
       = [EvUpdateLocal (bq_file (exItem 4096))]"
    by (simp add: w ok)
  with h1 h2 h3 show ?thesis by simp
qed

section \<open>Directory fixup: the measure goes down\<close>






























end
